theory Spec2Isabelle
  imports Main "HOL-Library.Word"
begin

section \<open>Shared vocabulary: errors and log output\<close>

text \<open>
  A Go \<open>error\<close> value is modelled as \<open>error option\<close>: \<open>None\<close> is \<open>nil\<close>. The
  constructors are the error values the embedded functions create or compare against.
  \<open>Errorf\<close> and \<open>Annotatef\<close> keep the format string and the formatted arguments apart, so
  that no printf formatting has to be re-implemented; \<open>OtherError\<close> stands for any error
  produced by a collaborator (network, TLS, the backing store).
\<close>

datatype error =
    ErrNotFound
  | ErrAborted
  | ErrNoOperations
  | ErrExcessiveContention
  | ErrStillAlive
  | ErrDying
  | ErrPerm
  | ErrBadCreds
  | UnknownEnvironmentError string
  | NotFoundf string "string list"
  | Errorf string "string list"
  | ErrorfErr string error
  | Trace error
  | Annotatef error string "string list"
  | OtherError string

datatype log_level = TRACE | DEBUG | INFO | WARNING | ERROR

text \<open>A log line: level, format string, formatted arguments.\<close>

datatype log_arg = ArgString string | ArgError error

type_synonym log_entry = "log_level \<times> string \<times> log_arg list"

type_synonym byte = "8 word"
type_synonym int64 = "64 word"
type_synonym time = nat

section \<open>state/apiserver/apiserver.go\<close>

subsection \<open>The tomb and the server record\<close>

text \<open>
  \<open>tomb.Tomb\<close> (launchpad.net/tomb, imported by apiserver.go): the \<open>dying\<close> and \<open>dead\<close>
  channels are closed or not, and \<open>reason\<close> is the recorded cause, \<open>ErrStillAlive\<close> until
  the first \<open>Kill\<close>.
\<close>

record Tomb =
  dying :: bool
  dead :: bool
  reason :: "error option"

definition newTomb :: Tomb where
  "newTomb = \<lparr>dying = False, dead = False, reason = Some ErrStillAlive\<rparr>"

text \<open>\<open>utils.Limiter\<close> as created by \<open>utils.NewLimiter(n)\<close>: \<open>n\<close> free slots.\<close>

record Limiter =
  slots :: nat

definition NewLimiter :: "nat \<Rightarrow> Limiter" where
  "NewLimiter n = \<lparr>slots = n\<rparr>"

definition loginRateLimit :: nat where
  "loginRateLimit = 10"

datatype 'c Listener =
    TCPListener string
  | TLSListener "'c Listener" "'c list"

fun Addr :: "'c Listener \<Rightarrow> string" where
  "Addr (TCPListener a) = a"
| "Addr (TLSListener l cs) = Addr l"

record 'st Server =
  tomb :: Tomb
  wg :: int
  state :: 'st
  environUUID :: string
  addr :: string
  dataDir :: string
  logDir :: string
  limiter :: Limiter

subsection \<open>NewServer\<close>

text \<open>
  \<open>NewServer\<close>. The two collaborators are parameters: \<open>Listen\<close> is \<open>net.Listen\<close> and
  \<open>X509KeyPair\<close> is \<open>tls.X509KeyPair\<close>. The result is \<open>Inl err\<close> for \<open>(nil, err)\<close> and
  \<open>Inr (srv, lis)\<close> for \<open>(srv, nil)\<close>, where \<open>lis\<close> is the TLS listener handed to the
  goroutine \<open>srv.run(lis)\<close>; the second component is the log output.
\<close>

definition NewServer ::
  "(string \<Rightarrow> string \<Rightarrow> error + 'c Listener) \<Rightarrow> (byte list \<Rightarrow> byte list \<Rightarrow> error + 'c) \<Rightarrow>
   'st \<Rightarrow> string \<Rightarrow> byte list \<Rightarrow> byte list \<Rightarrow> string \<Rightarrow> string \<Rightarrow>
   (error + 'st Server \<times> 'c Listener) \<times> log_entry list" where
  "NewServer Listen X509KeyPair s address cert key datadir logdir =
     (case Listen ''tcp'' address of
        Inl err \<Rightarrow> (Inl err, [])
      | Inr lis \<Rightarrow>
          (let logs = [(INFO, ''listening on %q'', [ArgString (Addr lis)])] in
           case X509KeyPair cert key of
             Inl err \<Rightarrow> (Inl err, logs)
           | Inr tlsCert \<Rightarrow>
               (let srv = \<lparr>tomb = newTomb, wg = 0, state = s, environUUID = '''',
                           addr = Addr lis, dataDir = datadir, logDir = logdir,
                           limiter = NewLimiter loginRateLimit\<rparr>;
                    lis' = TLSListener lis [tlsCert]
                in (Inr (srv, lis'), logs))))"

subsection \<open>Request notifiers and the global connection counter\<close>

record requestNotifier =
  notifier_id :: int64
  start :: time
  tag_ :: string

text \<open>
  \<open>newRequestNotifier\<close>. The package-level \<open>globalCounter int64\<close> is passed in and
  returned; \<open>atomic.AddInt64(&globalCounter, 1)\<close> adds one with 64-bit wrap-around and
  yields the new value. \<open>now\<close> is the value of \<open>time.Now()\<close>.
\<close>

definition newRequestNotifier :: "int64 \<Rightarrow> time \<Rightarrow> requestNotifier \<times> int64" where
  "newRequestNotifier globalCounter now =
     (let c = globalCounter + 1
      in (\<lparr>notifier_id = c, start = now, tag_ = ''<unknown>''\<rparr>, c))"

text \<open>
  Successive calls of \<open>newRequestNotifier\<close>, one per accepted connection (\<open>apiHandler\<close>
  calls it first thing); the list gives \<open>time.Now()\<close> at each call.
\<close>

fun newRequestNotifiers :: "time list \<Rightarrow> int64 \<Rightarrow> requestNotifier list \<times> int64" where
  "newRequestNotifiers [] g = ([], g)"
| "newRequestNotifiers (t # ts) g =
     (let r = newRequestNotifier g t;
          rs = newRequestNotifiers ts (snd r)
      in (fst r # fst rs, snd rs))"

subsection \<open>Tenant scope validation\<close>

record Environment =
  UUID :: string

text \<open>
  \<open>validateEnvironUUID\<close>. \<open>stEnvironment\<close> is \<open>srv.state.Environment()\<close>; the server
  caches the UUID it learns in \<open>srv.environUUID\<close>, so the server is returned as well.
\<close>

definition validateEnvironUUID ::
  "('st \<Rightarrow> error + Environment) \<Rightarrow> 'st Server \<Rightarrow> string \<Rightarrow> error option \<times> 'st Server" where
  "validateEnvironUUID stEnvironment srv envUUID =
     (if envUUID = '''' then (None, srv)
      else
        case (if environUUID srv = '''' then
                (case stEnvironment (state srv) of
                   Inl err \<Rightarrow> Inl err
                 | Inr env \<Rightarrow> Inr (srv\<lparr>environUUID := UUID env\<rparr>))
              else Inr srv) of
          Inl err \<Rightarrow> (Some err, srv)
        | Inr srv' \<Rightarrow>
            (if envUUID \<noteq> environUUID srv' then Some (UnknownEnvironmentError envUUID) else None,
             srv'))"

text \<open>
  The root object a connection serves: \<open>&errRoot{err}\<close>, which answers every request
  with \<open>err\<close>, or \<open>newStateServer(srv, conn, reqNotifier, srv.limiter)\<close>.
\<close>

datatype root = errRoot error | stateServerRoot Limiter

text \<open>
  \<open>serveConn\<close>: the root handed to \<open>conn.Serve\<close>, and the error returned, which is the
  result \<open>closeErr\<close> of \<open>conn.Close()\<close> once the connection is dead or the tomb dying.
\<close>

definition serveConn ::
  "('st \<Rightarrow> error + Environment) \<Rightarrow> 'st Server \<Rightarrow> string \<Rightarrow> error option \<Rightarrow>
   (root \<times> error option) \<times> 'st Server" where
  "serveConn stEnvironment srv envUUID closeErr =
     (case validateEnvironUUID stEnvironment srv envUUID of
        (Some err, srv') \<Rightarrow> ((errRoot err, closeErr), srv')
      | (None, srv') \<Rightarrow> ((stateServerRoot (limiter srv'), closeErr), srv'))"

section \<open>The document store and transactions\<close>

text \<open>
  Documents are BSON-like field lists; a collection maps a document id to a document and
  the store maps a collection name to a collection.
\<close>

datatype bson =
    BString string
  | BInt int
  | BStrings "string list"
  | BDoc "(string \<times> bson) list"

type_synonym doc = "(string \<times> bson) list"
type_synonym store = "string \<Rightarrow> string \<Rightarrow> doc option"

text \<open>
  \<open>txn.Op\<close> (mgo/txn): \<open>Assert\<close> is \<open>nil\<close>, \<open>txn.DocExists\<close>, \<open>txn.DocMissing\<close> or a
  query document; \<open>Insert\<close> and \<open>Update\<close> are \<open>nil\<close> or a document.
\<close>

datatype assertion = NoAssert | DocExists | DocMissing | AssertQuery doc

record Op =
  C :: string
  Id' :: string
  Assert :: assertion
  Insert :: "doc option"
  Update :: "doc option"
  Remove :: bool

fun set_field :: "string \<Rightarrow> bson \<Rightarrow> doc \<Rightarrow> doc" where
  "set_field f v [] = [(f, v)]"
| "set_field f v ((g, w) # d) = (if g = f then (f, v) # d else (g, w) # set_field f v d)"

fun set_fields :: "doc \<Rightarrow> doc \<Rightarrow> doc" where
  "set_fields [] d = d"
| "set_fields ((f, v) # fs) d = set_fields fs (set_field f v d)"

text \<open>An update document: the \<open>$set\<close> operator assigns fields; nothing else is used.\<close>

fun apply_update :: "doc \<Rightarrow> doc \<Rightarrow> doc" where
  "apply_update [] d = d"
| "apply_update ((opr, arg) # us) d =
     apply_update us
       (case arg of
          BDoc fs \<Rightarrow> (if opr = ''$set'' then set_fields fs d else d)
        | _ \<Rightarrow> d)"

fun assert_holds :: "assertion \<Rightarrow> doc option \<Rightarrow> bool" where
  "assert_holds NoAssert d = True"
| "assert_holds DocExists d = (d \<noteq> None)"
| "assert_holds DocMissing d = (d = None)"
| "assert_holds (AssertQuery q) None = False"
| "assert_holds (AssertQuery q) (Some d) = list_all (\<lambda>(f, v). map_of d f = Some v) q"

definition op_asserts :: "store \<Rightarrow> Op \<Rightarrow> bool" where
  "op_asserts s p = assert_holds (Assert p) (s (C p) (Id' p))"

definition put_doc :: "store \<Rightarrow> string \<Rightarrow> string \<Rightarrow> doc option \<Rightarrow> store" where
  "put_doc s c i d = s(c := (s c)(i := d))"

text \<open>
  The change one operation makes once the transaction is going ahead. As in mgo/txn, an
  insert of a document that exists, and an update or a removal of one that does not,
  change nothing.
\<close>

definition op_mutate :: "store \<Rightarrow> Op \<Rightarrow> store" where
  "op_mutate s p =
     (case s (C p) (Id' p) of
        None \<Rightarrow>
          (case Insert p of
             Some d \<Rightarrow> put_doc s (C p) (Id' p) (Some (set_field ''_id'' (BString (Id' p)) d))
           | None \<Rightarrow> s)
      | Some d \<Rightarrow>
          (if Remove p then put_doc s (C p) (Id' p) None
           else case Update p of
                  Some u \<Rightarrow> put_doc s (C p) (Id' p) (Some (apply_update u d))
                | None \<Rightarrow> s))"

text \<open>
  Modelled from the spec: the commit of an operation list by the Document Store Adapter,
  which is not among the given sources. Following sections 3 and 4.1, every operation's
  assertion is checked against the current documents; if one fails the transaction is
  aborted with the conflict error and nothing is written, otherwise all mutations are
  applied, in order, as one step.
\<close>

definition txn_apply :: "Op list \<Rightarrow> store \<Rightarrow> error option \<times> store" where
  "txn_apply ops s =
     (if list_all (op_asserts s) ops then (None, foldl op_mutate s ops)
      else (Some ErrAborted, s))"

subsection \<open>The world a state function runs in\<close>

text \<open>
  Other clients write to the store while a function runs. \<open>others\<close> lists what they do
  before each of the function's own store interactions, in order (nothing once the list is
  used up); \<open>fault\<close> is an I/O failure of the session, reported by every read while set;
  \<open>trace\<close> records the function's store interactions.
\<close>

datatype store_event = EvFindId string string | EvRunTransaction "Op list"

record world =
  store :: store
  others :: "(store \<Rightarrow> store) list"
  fault :: "error option"
  trace :: "store_event list"

definition interfere :: "world \<Rightarrow> world" where
  "interfere W =
     (case others W of
        [] \<Rightarrow> W
      | f # fs \<Rightarrow> W\<lparr>store := f (store W), others := fs\<rparr>)"

text \<open>\<open>collection.FindId(id).One(&doc)\<close>: the document, or \<open>mgo.ErrNotFound\<close>.\<close>

definition FindId_One :: "string \<Rightarrow> string \<Rightarrow> world \<Rightarrow> (error + doc) \<times> world" where
  "FindId_One c i W =
     (let W' = (interfere W)\<lparr>trace := trace W @ [EvFindId c i]\<rparr>
      in case fault W' of
           Some e \<Rightarrow> (Inl e, W')
         | None \<Rightarrow>
             (case store W' c i of
                None \<Rightarrow> (Inl ErrNotFound, W')
              | Some d \<Rightarrow> (Inr d, W')))"

text \<open>
  Modelled from the spec: \<open>State.runTransaction\<close>, not among the given sources: it
  submits the operations to the store as one atomic unit.
\<close>

definition runTransaction :: "Op list \<Rightarrow> world \<Rightarrow> error option \<times> world" where
  "runTransaction ops W =
     (let W' = (interfere W)\<lparr>trace := trace W @ [EvRunTransaction ops]\<rparr>;
          r = txn_apply ops (store W')
      in (fst r, W'\<lparr>store := snd r\<rparr>))"

text \<open>
  Modelled from the spec: the Transaction Engine's \<open>RunTransaction(buildOps)\<close> of section
  4.1 (\<open>State.run\<close>, not among the given sources). \<open>buildOps\<close> is called with the attempt
  number, starting at 0; the \<open>ErrNoOperations\<close> sentinel means success with no change;
  any other error of the builder is returned; an empty operation list short-circuits;
  a conflict makes the engine call the builder again with the next attempt number, and
  after \<open>n\<close> attempts the conflict surfaces as \<open>ErrExcessiveContention\<close>. The builder is
  a closure over mutable variables, here its state \<open>'b\<close>.
\<close>

fun run_from ::
  "nat \<Rightarrow> nat \<Rightarrow> (nat \<Rightarrow> 'b \<Rightarrow> world \<Rightarrow> (error + Op list) \<times> 'b \<times> world) \<Rightarrow> 'b \<Rightarrow> world \<Rightarrow>
   error option \<times> 'b \<times> world" where
  "run_from 0 attempt buildOps b W = (Some ErrExcessiveContention, b, W)"
| "run_from (Suc n) attempt buildOps b W =
     (case buildOps attempt b W of
        (Inl err, b', W') \<Rightarrow> (if err = ErrNoOperations then (None, b', W') else (Some err, b', W'))
      | (Inr ops, b', W') \<Rightarrow>
          (if ops = [] then (None, b', W')
           else case runTransaction ops W' of
                  (None, W'') \<Rightarrow> (None, b', W'')
                | (Some err, W'') \<Rightarrow>
                    (if err = ErrAborted then run_from n (Suc attempt) buildOps b' W''
                     else (Some err, b', W''))))"

definition run ::
  "nat \<Rightarrow> (nat \<Rightarrow> 'b \<Rightarrow> world \<Rightarrow> (error + Op list) \<times> 'b \<times> world) \<Rightarrow> 'b \<Rightarrow> world \<Rightarrow>
   error option \<times> 'b \<times> world" where
  "run maxAttempts buildOps b W = run_from maxAttempts 0 buildOps b W"
section \<open>The state package\<close>

text \<open>
  \<open>State\<close>: the environment UUID and the name of the requested-networks collection
  (\<open>st.requestedNetworks.Name\<close>).
\<close>

record State =
  EnvironUUID :: string
  requestedNetworks :: string

text \<open>
  Modelled from the spec: \<open>State.docID\<close>, not among the given sources, builds the
  composite key \<open><env-scope>:<entity-key>\<close> of section 3.
\<close>

definition docID :: "State \<Rightarrow> string \<Rightarrow> string" where
  "docID st localID = EnvironUUID st @ '':'' @ localID"

text \<open>
  Modelled from the spec: the collection names \<open>unitsC\<close> and \<open>meterStatusC\<close> and the
  predicate assertion "is alive" (\<open>isAliveDoc\<close>, a query on the \<open>life\<close> field, whose value
  for a live entity is 0), all declared outside the given sources.
\<close>

definition unitsC :: string where
  "unitsC = ''units''"

definition meterStatusC :: string where
  "meterStatusC = ''meterStatus''"

definition Alive :: int where
  "Alive = 0"

definition isAliveDoc :: doc where
  "isAliveDoc = [(''life'', BInt Alive)]"

text \<open>
  A unit as the functions below see it: its document (\<open>u.doc\<close>) and the value of
  \<open>u.globalKey()\<close>, a method defined outside the given sources.
\<close>

record unitDoc =
  unit_DocID :: string
  unit_Name :: string
  unit_Life :: int

record Unit =
  doc :: unitDoc
  globalKey :: string

definition Name :: "Unit \<Rightarrow> string" where
  "Name u = unit_Name (doc u)"

fun bson_string :: "bson option \<Rightarrow> string" where
  "bson_string (Some (BString s)) = s"
| "bson_string _ = ''''"

fun bson_int :: "bson option \<Rightarrow> int" where
  "bson_int (Some (BInt i)) = i"
| "bson_int _ = 0"

definition decode_unitDoc :: "doc \<Rightarrow> unitDoc" where
  "decode_unitDoc d =
     \<lparr>unit_DocID = bson_string (map_of d ''_id''), unit_Name = bson_string (map_of d ''name''),
      unit_Life = bson_int (map_of d ''life'')\<rparr>"

text \<open>
  Modelled from the spec: \<open>Unit.Refresh\<close>, not among the given sources, re-reads the
  unit's document ("re-read fresh state"); a unit that is gone is a not-found error.
\<close>

definition Refresh :: "Unit \<Rightarrow> world \<Rightarrow> error option \<times> Unit \<times> world" where
  "Refresh u W =
     (case FindId_One unitsC (unit_DocID (doc u)) W of
        (Inl err, W') \<Rightarrow>
          (Some (if err = ErrNotFound then NotFoundf ''unit %q'' [Name u]
                 else ErrorfErr ''cannot refresh unit: %v'' err), u, W')
      | (Inr d, W') \<Rightarrow> (None, u\<lparr>doc := decode_unitDoc d\<rparr>, W'))"

subsection \<open>Requested networks\<close>

record requestedNetworksDoc =
  Id :: string
  Networks :: "string list option"

definition newRequestedNetworksDoc :: "string list option \<Rightarrow> requestedNetworksDoc" where
  "newRequestedNetworksDoc networks = \<lparr>Id = '''', Networks = networks\<rparr>"

definition encode_requestedNetworksDoc :: "requestedNetworksDoc \<Rightarrow> doc" where
  "encode_requestedNetworksDoc d =
     [(''_id'', BString (Id d)),
      (''networks'', case Networks d of None \<Rightarrow> BStrings [] | Some ns \<Rightarrow> BStrings ns)]"

definition decode_requestedNetworksDoc :: "doc \<Rightarrow> requestedNetworksDoc" where
  "decode_requestedNetworksDoc d =
     \<lparr>Id = bson_string (map_of d ''_id''),
      Networks = (case map_of d ''networks'' of Some (BStrings ns) \<Rightarrow> Some ns | _ \<Rightarrow> None)\<rparr>"

definition createRequestedNetworksOp :: "State \<Rightarrow> string \<Rightarrow> string list option \<Rightarrow> Op" where
  "createRequestedNetworksOp st i networks =
     \<lparr>C = requestedNetworks st, Id' = i, Assert = DocMissing,
      Insert = Some (encode_requestedNetworksDoc (newRequestedNetworksDoc networks)),
      Update = None, Remove = False\<rparr>"

definition removeRequestedNetworksOp :: "State \<Rightarrow> string \<Rightarrow> Op" where
  "removeRequestedNetworksOp st i =
     \<lparr>C = requestedNetworks st, Id' = i, Assert = NoAssert, Insert = None, Update = None,
      Remove = True\<rparr>"

text \<open>
  \<open>readRequestedNetworks\<close>: the networks (\<open>None\<close> is the nil slice), the error, and the
  log lines written. The function calls no logger.
\<close>

definition readRequestedNetworks ::
  "State \<Rightarrow> string \<Rightarrow> world \<Rightarrow> (string list option \<times> error option) \<times> log_entry list \<times> world" where
  "readRequestedNetworks st i W =
     (case FindId_One (requestedNetworks st) i W of
        (Inl err, W') \<Rightarrow>
          (if err = ErrNotFound then ((None, None), [], W')
           else ((Networks \<lparr>Id = '''', Networks = None\<rparr>, Some err), [], W'))
      | (Inr d, W') \<Rightarrow> ((Networks (decode_requestedNetworksDoc d), None), [], W'))"

subsection \<open>Meter status\<close>

type_synonym MeterStatusCode = string

definition MeterNotSet :: MeterStatusCode where "MeterNotSet = ''NOT SET''"
definition MeterNotAvailable :: MeterStatusCode where "MeterNotAvailable = ''NOT AVAILABLE''"
definition MeterGreen :: MeterStatusCode where "MeterGreen = ''GREEN''"
definition MeterAmber :: MeterStatusCode where "MeterAmber = ''AMBER''"
definition MeterRed :: MeterStatusCode where "MeterRed = ''RED''"

record meterStatusDoc =
  DocID :: string
  EnvUUID :: string
  Code :: MeterStatusCode
  Info :: string

definition encode_meterStatusDoc :: "meterStatusDoc \<Rightarrow> doc" where
  "encode_meterStatusDoc d =
     [(''_id'', BString (DocID d)), (''env-uuid'', BString (EnvUUID d)),
      (''code'', BString (Code d)), (''info'', BString (Info d))]"

definition decode_meterStatusDoc :: "doc \<Rightarrow> meterStatusDoc" where
  "decode_meterStatusDoc d =
     \<lparr>DocID = bson_string (map_of d ''_id''), EnvUUID = bson_string (map_of d ''env-uuid''),
      Code = bson_string (map_of d ''code''), Info = bson_string (map_of d ''info'')\<rparr>"

text \<open>\<open>errors.Annotatef\<close>: \<open>nil\<close> stays \<open>nil\<close>.\<close>

definition annotatef :: "error option \<Rightarrow> string \<Rightarrow> string list \<Rightarrow> error option" where
  "annotatef err f args = (case err of None \<Rightarrow> None | Some e \<Rightarrow> Some (Annotatef e f args))"

text \<open>
  \<open>getMeterStatusDoc\<close>. The collection comes from \<open>u.st.getCollection(meterStatusC)\<close>.
  Modelled from the spec: \<open>getCollection\<close>, not among the given sources, gives the
  environment's view of the collection, in which \<open>FindId\<close> completes the key to the
  composite key of section 3.
\<close>

definition getMeterStatusDoc :: "State \<Rightarrow> Unit \<Rightarrow> world \<Rightarrow> (error + meterStatusDoc) \<times> world" where
  "getMeterStatusDoc st u W =
     (case FindId_One meterStatusC (docID st (globalKey u)) W of
        (Inl err, W') \<Rightarrow> (Inl (Trace err), W')
      | (Inr d, W') \<Rightarrow> (Inr (decode_meterStatusDoc d), W'))"

definition setMeterStatusOp ::
  "Unit \<Rightarrow> State \<Rightarrow> string \<Rightarrow> MeterStatusCode \<Rightarrow> string \<Rightarrow> Op list" where
  "setMeterStatusOp u st gk code info =
     [\<lparr>C = unitsC, Id' = unit_DocID (doc u), Assert = AssertQuery isAliveDoc,
       Insert = None, Update = None, Remove = False\<rparr>,
      \<lparr>C = meterStatusC, Id' = docID st gk, Assert = DocExists,
       Insert = None,
       Update = Some [(''$set'', BDoc [(''code'', BString code), (''info'', BString info)])],
       Remove = False\<rparr>]"

definition createMeterStatusOp :: "State \<Rightarrow> string \<Rightarrow> meterStatusDoc \<Rightarrow> Op" where
  "createMeterStatusOp st gk d =
     \<lparr>C = meterStatusC, Id' = docID st gk, Assert = DocMissing,
      Insert = Some (encode_meterStatusDoc (d\<lparr>EnvUUID := EnvironUUID st\<rparr>)),
      Update = None, Remove = False\<rparr>"

definition removeMeterStatusOp :: "State \<Rightarrow> string \<Rightarrow> Op" where
  "removeMeterStatusOp st gk =
     \<lparr>C = meterStatusC, Id' = docID st gk, Assert = NoAssert, Insert = None, Update = None,
      Remove = True\<rparr>"

text \<open>
  The closure \<open>buildTxn\<close> of \<open>SetMeterStatus\<close>. It captures \<open>u\<close>, \<open>code\<close> and \<open>info\<close>;
  \<open>u.Refresh()\<close> changes the unit, which is therefore the closure's state.
\<close>

definition buildTxn ::
  "State \<Rightarrow> MeterStatusCode \<Rightarrow> string \<Rightarrow> nat \<Rightarrow> Unit \<Rightarrow> world \<Rightarrow>
   (error + Op list) \<times> Unit \<times> world" where
  "buildTxn st code info attempt u W =
     (if attempt > 0 then
        (case Refresh u W of
           (Some err, u1, W1) \<Rightarrow> (Inl (Trace err), u1, W1)
         | (None, u1, W1) \<Rightarrow>
             (case getMeterStatusDoc st u1 W1 of
                (Inl err, W2) \<Rightarrow>
                  (Inl (Annotatef err ''cannot update meter status for unit %s'' [Name u1]), u1, W2)
              | (Inr meterDoc, W2) \<Rightarrow>
                  (if Code meterDoc = code \<and> Info meterDoc = info
                   then (Inl ErrNoOperations, u1, W2)
                   else (Inr (setMeterStatusOp u1 st (globalKey u1) code info), u1, W2))))
      else (Inr (setMeterStatusOp u st (globalKey u) code info), u, W))"

text \<open>
  \<open>Unit.SetMeterStatus\<close>. \<open>maxAttempts\<close> is the engine's bound on attempts. The result
  is the error, the unit as the call leaves it, and the world.
\<close>

definition SetMeterStatus ::
  "nat \<Rightarrow> State \<Rightarrow> Unit \<Rightarrow> string \<Rightarrow> string \<Rightarrow> world \<Rightarrow> error option \<times> Unit \<times> world" where
  "SetMeterStatus maxAttempts st u codeRaw info W =
     (let code = codeRaw in
      if \<not> (code = MeterGreen \<or> code = MeterAmber \<or> code = MeterRed)
      then (Some (Errorf ''invalid meter status %q'' [code]), u, W)
      else
        case getMeterStatusDoc st u W of
          (Inl err, W1) \<Rightarrow>
            (Some (Annotatef err ''cannot update meter status for unit %s'' [Name u]), u, W1)
        | (Inr meterDoc, W1) \<Rightarrow>
            (if Code meterDoc = code \<and> Info meterDoc = info then (None, u, W1)
             else
               case run maxAttempts (buildTxn st code info) u W1 of
                 (err, u', W2) \<Rightarrow>
                   (annotatef err ''cannot set meter state for unit %s'' [Name u'], u', W2)))"

text \<open>
  \<open>State.SetMeterStatusOnAllUnits\<close>. \<open>services\<close> is the result of \<open>st.AllServices()\<close>,
  each service given by the result of its \<open>AllUnits()\<close>.
\<close>

fun allUnitsOps ::
  "State \<Rightarrow> string \<Rightarrow> string \<Rightarrow> (error + Unit list) list \<Rightarrow> Op list \<Rightarrow> error + Op list" where
  "allUnitsOps st codeRaw info [] ops = Inr ops"
| "allUnitsOps st codeRaw info (Inl err # svcs) ops = Inl err"
| "allUnitsOps st codeRaw info (Inr units # svcs) ops =
     allUnitsOps st codeRaw info svcs
       (foldl (\<lambda>ops unit. ops @ setMeterStatusOp unit st (globalKey unit) codeRaw info) ops units)"

definition SetMeterStatusOnAllUnits ::
  "State \<Rightarrow> error + (error + Unit list) list \<Rightarrow> string \<Rightarrow> string \<Rightarrow> world \<Rightarrow>
   error option \<times> world" where
  "SetMeterStatusOnAllUnits st services codeRaw info W =
     (case services of
        Inl err \<Rightarrow> (Some err, W)
      | Inr svcs \<Rightarrow>
          (case allUnitsOps st codeRaw info svcs [] of
             Inl err \<Rightarrow> (Some err, W)
           | Inr ops \<Rightarrow>
               (case runTransaction ops W of
                  (err, W') \<Rightarrow> (annotatef err ''cannot set meter state for all units'' [], W'))))"

definition GetMeterStatus :: "State \<Rightarrow> Unit \<Rightarrow> world \<Rightarrow> (string \<times> string \<times> error option) \<times> world" where
  "GetMeterStatus st u W =
     (case getMeterStatusDoc st u W of
        (Inl err, W') \<Rightarrow>
          ((MeterNotAvailable, '''',
            Some (Annotatef err ''cannot retrieve meter status for unit %s'' [Name u])), W')
      | (Inr status, W') \<Rightarrow> ((Code status, Info status, None), W'))"

subsection \<open>Example data\<close>

text \<open>
  A small environment used to evaluate the functions above: one unit, \<open>wordpress/0\<close>,
  with its unit document and its meter-status document.
\<close>

definition example_State :: State where
  "example_State = \<lparr>EnvironUUID = ''env-1'', requestedNetworks = ''requestednetworks''\<rparr>"

definition example_Unit :: Unit where
  "example_Unit =
     \<lparr>doc = \<lparr>unit_DocID = ''env-1:wordpress/0'', unit_Name = ''wordpress/0'', unit_Life = 0\<rparr>,
      globalKey = ''u#wordpress/0''\<rparr>"

definition example_unit_doc :: "int \<Rightarrow> doc" where
  "example_unit_doc life =
     [(''_id'', BString ''env-1:wordpress/0''), (''name'', BString ''wordpress/0''),
      (''life'', BInt life)]"

definition example_meter_doc :: "string \<Rightarrow> string \<Rightarrow> doc" where
  "example_meter_doc code info =
     [(''_id'', BString ''env-1:u#wordpress/0''), (''env-uuid'', BString ''env-1''),
      (''code'', BString code), (''info'', BString info)]"

text \<open>The store holding the given unit document and meter-status document, if any.\<close>

definition example_store :: "doc option \<Rightarrow> doc option \<Rightarrow> store" where
  "example_store ud md =
     (\<lambda>c i. if c = ''units'' \<and> i = ''env-1:wordpress/0'' then ud
            else if c = ''meterStatus'' \<and> i = ''env-1:u#wordpress/0'' then md
            else None)"

definition example_world :: "store \<Rightarrow> (store \<Rightarrow> store) list \<Rightarrow> world" where
  "example_world s fs = \<lparr>store = s, others = fs, fault = None, trace = []\<rparr>"

section \<open>Properties\<close>

text \<open>
  C9. \<open>NewServer\<close> returns an error and no server exactly when \<open>net.Listen\<close> fails on
  the address or \<open>tls.X509KeyPair\<close> rejects the certificate/key pair; the error is the
  collaborator's own. When both succeed it returns a server listening on the bound
  address, and no error.
\<close>

theorem NewServer_error_iff:
  "(\<exists>err. fst (NewServer Listen X509KeyPair s address cert key datadir logdir) = Inl err)
     = (isl (Listen ''tcp'' address) \<or> isl (X509KeyPair cert key))
   \<and> (\<forall>err. Listen ''tcp'' address = Inl err \<longrightarrow>
          fst (NewServer Listen X509KeyPair s address cert key datadir logdir) = Inl err)
   \<and> (\<forall>lis err. Listen ''tcp'' address = Inr lis \<longrightarrow> X509KeyPair cert key = Inl err \<longrightarrow>
          fst (NewServer Listen X509KeyPair s address cert key datadir logdir) = Inl err)
   \<and> (\<forall>lis tlsCert. Listen ''tcp'' address = Inr lis \<longrightarrow> X509KeyPair cert key = Inr tlsCert \<longrightarrow>
          (\<exists>srv. fst (NewServer Listen X509KeyPair s address cert key datadir logdir)
                   = Inr (srv, TLSListener lis [tlsCert])
                 \<and> addr srv = Addr lis \<and> state srv = s))"
  by (auto simp: NewServer_def Let_def split: sum.splits)

theorem NewServer_error_iff_witness:
  "fst (NewServer (\<lambda>n a. if a = ''localhost:17070'' then Inr (TCPListener a) else Inl (OtherError ''bind''))
         (\<lambda>c k. if c = [1] \<and> k = [2] then Inr (0::nat) else Inl (OtherError ''bad pair''))
         () ''localhost:17070'' [1] [2] ''/data'' ''/log'')
     = Inr (\<lparr>tomb = newTomb, wg = 0, state = (), environUUID = '''',
              addr = ''localhost:17070'', dataDir = ''/data'', logDir = ''/log'',
              limiter = NewLimiter loginRateLimit\<rparr>,
            TLSListener (TCPListener ''localhost:17070'') [0])
   \<and> fst (NewServer (\<lambda>n a. if a = ''localhost:17070'' then Inr (TCPListener a) else Inl (OtherError ''bind''))
         (\<lambda>c k. if c = [1] \<and> k = [2] then Inr (0::nat) else Inl (OtherError ''bad pair''))
         () ''localhost:17070'' [1] [3] ''/data'' ''/log'')
     = Inl (OtherError ''bad pair'')
   \<and> fst (NewServer (\<lambda>n a. if a = ''localhost:17070'' then Inr (TCPListener a) else Inl (OtherError ''bind''))
         (\<lambda>c k. if c = [1] \<and> k = [2] then Inr (0::nat) else Inl (OtherError ''bad pair''))
         () ''elsewhere:1'' [1] [2] ''/data'' ''/log'')
     = Inl (OtherError ''bind'')"
  using NewServer_error_iff
    [of "\<lambda>n a. if a = ''localhost:17070'' then Inr (TCPListener a) else Inl (OtherError ''bind'')"
        "\<lambda>c k. if c = [1] \<and> k = [2] then Inr (0::nat) else Inl (OtherError ''bad pair'')"
        "()" "''localhost:17070''" "[1]" "[2]" "''/data''" "''/log''"]
    NewServer_error_iff
    [of "\<lambda>n a. if a = ''localhost:17070'' then Inr (TCPListener a) else Inl (OtherError ''bind'')"
        "\<lambda>c k. if c = [1] \<and> k = [2] then Inr (0::nat) else Inl (OtherError ''bad pair'')"
        "()" "''localhost:17070''" "[1]" "[3]" "''/data''" "''/log''"]
    NewServer_error_iff
    [of "\<lambda>n a. if a = ''localhost:17070'' then Inr (TCPListener a) else Inl (OtherError ''bind'')"
        "\<lambda>c k. if c = [1] \<and> k = [2] then Inr (0::nat) else Inl (OtherError ''bad pair'')"
        "()" "''elsewhere:1''" "[1]" "[2]" "''/data''" "''/log''"]
  by (simp add: NewServer_def)

subsection \<open>Connection identifiers\<close>

lemma newRequestNotifiers_length: "length (fst (newRequestNotifiers ts g)) = length ts"
  by (induction ts arbitrary: g) (auto simp: Let_def)

lemma newRequestNotifiers_nth:
  "i < length ts \<Longrightarrow> notifier_id (fst (newRequestNotifiers ts g) ! i) = g + of_nat i + 1"
proof (induction ts arbitrary: g i)
  case Nil
  then show ?case by simp
next
  case (Cons t ts)
  show ?case
  proof (cases i)
    case 0
    then show ?thesis by (simp add: newRequestNotifier_def Let_def)
  next
    case (Suc k)
    with Cons.prems have "k < length ts" by simp
    from Cons.IH[OF this, of "g + 1"] Suc show ?thesis
      by (simp add: newRequestNotifier_def Let_def add.assoc)
  qed
qed

lemma sint_of_nat_small: "n < 2 ^ 63 \<Longrightarrow> sint (of_nat n :: int64) = int n"
proof -
  assume a: "n < 2 ^ 63"
  have "- (2 ^ 63) \<le> int n" by simp
  moreover from a have "int n < 2 ^ 63"
    by (metis of_nat_less_iff of_nat_numeral of_nat_power)
  ultimately have "signed_take_bit 63 (int n) = int n"
    by (simp add: signed_take_bit_int_eq_self)
  then show ?thesis by (simp add: signed_of_nat)
qed

lemma of_nat_int64_nonzero: "0 < n \<Longrightarrow> n < 2 ^ 64 \<Longrightarrow> (of_nat n :: int64) \<noteq> 0"
proof
  assume n: "0 < n" "n < 2 ^ 64" and z: "(of_nat n :: int64) = 0"
  from z have "(2::nat) ^ 64 dvd n" by (simp add: word_of_nat_eq_0_iff)
  with n(1) have "(2::nat) ^ 64 \<le> n" by (rule_tac dvd_imp_le)
  with n(2) show False by simp
qed

text \<open>
  C8, as stated, fails: the counter is an \<open>int64\<close> and wraps. In a run of \<open>2^63\<close> calls
  starting from the initial counter \<open>0\<close>, call number \<open>2^63 - 1\<close> gets the id
  \<open>2^63 - 1\<close> and the next call gets \<open>- 2^63\<close>, so the ids are not increasing there.
\<close>

theorem newRequestNotifier_ids_counterexample:
  "\<not> sint (notifier_id (fst (newRequestNotifiers (replicate 9223372036854775808 0) 0)
                ! 9223372036854775806))
     < sint (notifier_id (fst (newRequestNotifiers (replicate 9223372036854775808 0) 0)
                ! 9223372036854775807))"
proof -
  have a: "9223372036854775806 < length (replicate 9223372036854775808 (0::nat))" by simp
  have b: "9223372036854775807 < length (replicate 9223372036854775808 (0::nat))" by simp
  show ?thesis
    unfolding newRequestNotifiers_nth [OF a] newRequestNotifiers_nth [OF b] by simp
qed

text \<open>
  C8, amended. With the counter starting at \<open>0\<close>, the ids handed out by any two calls
  fewer than \<open>2^64\<close> calls apart differ, and over the first \<open>2^63 - 1\<close> calls the ids,
  read as signed 64-bit integers, are the call numbers \<open>1, 2, 3, ...\<close> and hence strictly
  increasing.
\<close>

theorem newRequestNotifier_ids:
  assumes "i < j" and "j < length ts"
  shows "(j - i < 2 ^ 64 \<longrightarrow>
            notifier_id (fst (newRequestNotifiers ts 0) ! i)
              \<noteq> notifier_id (fst (newRequestNotifiers ts 0) ! j))
       \<and> (j + 1 < 2 ^ 63 \<longrightarrow>
            sint (notifier_id (fst (newRequestNotifiers ts 0) ! i)) = int i + 1
          \<and> sint (notifier_id (fst (newRequestNotifiers ts 0) ! j)) = int j + 1
          \<and> sint (notifier_id (fst (newRequestNotifiers ts 0) ! i))
              < sint (notifier_id (fst (newRequestNotifiers ts 0) ! j)))"
proof -
  from assms have il: "i < length ts" by simp
  have idi: "notifier_id (fst (newRequestNotifiers ts 0) ! i) = of_nat (i + 1)"
    using newRequestNotifiers_nth [OF il, of 0] by simp
  have idj: "notifier_id (fst (newRequestNotifiers ts 0) ! j) = of_nat (j + 1)"
    using newRequestNotifiers_nth [OF assms(2), of 0] by simp
  have distinct: "(of_nat (i + 1) :: int64) \<noteq> of_nat (j + 1)" if d: "j - i < 2 ^ 64"
  proof
    assume e: "(of_nat (i + 1) :: int64) = of_nat (j + 1)"
    from assms(1) have "j + 1 = (j - i) + (i + 1)" by simp
    then have "(of_nat (j + 1) :: int64) = of_nat (j - i) + of_nat (i + 1)"
      by (metis of_nat_add)
    with e have "(of_nat (j - i) :: int64) = 0" by simp
    moreover from assms(1) have "0 < j - i" by simp
    ultimately show False using of_nat_int64_nonzero [OF _ d] by simp
  qed
  have incr: "sint (of_nat (i + 1) :: int64) = int i + 1
            \<and> sint (of_nat (j + 1) :: int64) = int j + 1
            \<and> sint (of_nat (i + 1) :: int64) < sint (of_nat (j + 1) :: int64)"
    if b: "j + 1 < 2 ^ 63"
  proof -
    from assms(1) b have bi: "i + 1 < 2 ^ 63" by simp
    have "sint (of_nat (i + 1) :: int64) = int (i + 1)" by (rule sint_of_nat_small [OF bi])
    moreover have "sint (of_nat (j + 1) :: int64) = int (j + 1)" by (rule sint_of_nat_small [OF b])
    ultimately show ?thesis using assms(1) by simp
  qed
  show ?thesis unfolding idi idj using distinct incr by blast
qed

theorem newRequestNotifier_ids_witness:
  "notifier_id (fst (newRequestNotifiers [5, 6, 9] 0) ! 0)
     \<noteq> notifier_id (fst (newRequestNotifiers [5, 6, 9] 0) ! 2)
   \<and> sint (notifier_id (fst (newRequestNotifiers [5, 6, 9] 0) ! 0)) = 1
   \<and> sint (notifier_id (fst (newRequestNotifiers [5, 6, 9] 0) ! 2)) = 3"
  using newRequestNotifier_ids [of 0 2 "[5, 6, 9]"] by simp

subsection \<open>Tenant scope\<close>

text \<open>
  C4. A request whose environment UUID is non-empty and differs from the UUID the
  server has resolved (cached in \<open>srv.environUUID\<close>, or just obtained from
  \<open>srv.state.Environment()\<close>) is refused with \<open>UnknownEnvironmentError\<close>, which is neither
  \<open>ErrPerm\<close> nor \<open>ErrBadCreds\<close>; the connection then serves \<open>errRoot\<close> with that error.
  An empty UUID is accepted and the connection serves the state server root.
\<close>

theorem validateEnvironUUID_scope:
  "(envUUID \<noteq> '''' \<longrightarrow> environUUID srv \<noteq> '''' \<longrightarrow> envUUID \<noteq> environUUID srv \<longrightarrow>
      fst (validateEnvironUUID stEnvironment srv envUUID) = Some (UnknownEnvironmentError envUUID)
    \<and> fst (fst (serveConn stEnvironment srv envUUID closeErr))
        = errRoot (UnknownEnvironmentError envUUID))
   \<and> (envUUID \<noteq> '''' \<longrightarrow> environUUID srv = '''' \<longrightarrow> stEnvironment (state srv) = Inr env \<longrightarrow>
      envUUID \<noteq> UUID env \<longrightarrow>
      fst (validateEnvironUUID stEnvironment srv envUUID) = Some (UnknownEnvironmentError envUUID)
    \<and> fst (fst (serveConn stEnvironment srv envUUID closeErr))
        = errRoot (UnknownEnvironmentError envUUID))
   \<and> UnknownEnvironmentError envUUID \<noteq> ErrPerm
   \<and> UnknownEnvironmentError envUUID \<noteq> ErrBadCreds
   \<and> validateEnvironUUID stEnvironment srv '''' = (None, srv)
   \<and> fst (fst (serveConn stEnvironment srv '''' closeErr)) = stateServerRoot (limiter srv)"
  by (simp add: validateEnvironUUID_def serveConn_def)

theorem validateEnvironUUID_scope_witness:
  "fst (validateEnvironUUID (\<lambda>u. Inr \<lparr>UUID = ''env-1''\<rparr>)
          \<lparr>tomb = newTomb, wg = 0, state = (), environUUID = ''env-1'', addr = ''a'',
           dataDir = ''d'', logDir = ''l'', limiter = NewLimiter loginRateLimit\<rparr> ''env-2'')
     = Some (UnknownEnvironmentError ''env-2'')
   \<and> fst (validateEnvironUUID (\<lambda>u. Inr \<lparr>UUID = ''env-1''\<rparr>)
          \<lparr>tomb = newTomb, wg = 0, state = (), environUUID = '''', addr = ''a'',
           dataDir = ''d'', logDir = ''l'', limiter = NewLimiter loginRateLimit\<rparr> ''env-2'')
     = Some (UnknownEnvironmentError ''env-2'')
   \<and> fst (validateEnvironUUID (\<lambda>u. Inr \<lparr>UUID = ''env-1''\<rparr>)
          \<lparr>tomb = newTomb, wg = 0, state = (), environUUID = '''', addr = ''a'',
           dataDir = ''d'', logDir = ''l'', limiter = NewLimiter loginRateLimit\<rparr> '''')
     = None"
  using validateEnvironUUID_scope
     [of "''env-2''" "\<lparr>tomb = newTomb, wg = 0, state = (), environUUID = ''env-1'', addr = ''a'',
           dataDir = ''d'', logDir = ''l'', limiter = NewLimiter loginRateLimit\<rparr>"
         "\<lambda>u. Inr \<lparr>UUID = ''env-1''\<rparr>" None "\<lparr>UUID = ''env-1''\<rparr>"]
    validateEnvironUUID_scope
     [of "''env-2''" "\<lparr>tomb = newTomb, wg = 0, state = (), environUUID = '''', addr = ''a'',
           dataDir = ''d'', logDir = ''l'', limiter = NewLimiter loginRateLimit\<rparr>"
         "\<lambda>u. Inr \<lparr>UUID = ''env-1''\<rparr>" None "\<lparr>UUID = ''env-1''\<rparr>"]
  by simp

subsection \<open>Requested networks\<close>

text \<open>
  C7, as stated, fails in its last part: on the missing-document path
  \<open>readRequestedNetworks\<close> returns no data and no error, and writes no log line. Here the
  store is empty and the requested-networks document of \<open>s#wordpress\<close> is read.
\<close>

theorem readRequestedNetworks_silent_counterexample:
  "fst (readRequestedNetworks \<lparr>EnvironUUID = ''env-1'', requestedNetworks = ''requestednetworks''\<rparr>
          ''s#wordpress''
          \<lparr>store = (\<lambda>c i. None), others = [], fault = None, trace = []\<rparr>) = (None, None)
   \<and> \<not> fst (snd (readRequestedNetworks
          \<lparr>EnvironUUID = ''env-1'', requestedNetworks = ''requestednetworks''\<rparr>
          ''s#wordpress''
          \<lparr>store = (\<lambda>c i. None), others = [], fault = None, trace = []\<rparr>)) \<noteq> []"
  by (simp add: readRequestedNetworks_def FindId_One_def interfere_def)

text \<open>
  C7, amended. For every id, when the read of the requested-networks document reports
  \<open>mgo.ErrNotFound\<close>, \<open>readRequestedNetworks\<close> returns no data and no error; the path
  writes no log line (it is documented by a comment in the code only) and the only store
  interaction is the read itself.
\<close>

theorem readRequestedNetworks_missing:
  assumes "fst (FindId_One (requestedNetworks st) i W) = Inl ErrNotFound"
  shows "fst (readRequestedNetworks st i W) = (None, None)
       \<and> fst (snd (readRequestedNetworks st i W)) = []
       \<and> snd (snd (readRequestedNetworks st i W)) = snd (FindId_One (requestedNetworks st) i W)
       \<and> trace (snd (snd (readRequestedNetworks st i W)))
           = trace W @ [EvFindId (requestedNetworks st) i]"
  using assms
  by (auto simp: readRequestedNetworks_def FindId_One_def Let_def
           split: prod.splits sum.splits option.splits)

theorem readRequestedNetworks_missing_witness:
  "fst (readRequestedNetworks \<lparr>EnvironUUID = ''env-1'', requestedNetworks = ''requestednetworks''\<rparr>
          ''m#0''
          \<lparr>store = (\<lambda>c i. None), others = [], fault = None, trace = []\<rparr>) = (None, None)
   \<and> trace (snd (snd (readRequestedNetworks
          \<lparr>EnvironUUID = ''env-1'', requestedNetworks = ''requestednetworks''\<rparr>
          ''m#0''
          \<lparr>store = (\<lambda>c i. None), others = [], fault = None, trace = []\<rparr>)))
       = [EvFindId ''requestednetworks'' ''m#0'']"
  using readRequestedNetworks_missing
    [of "\<lparr>EnvironUUID = ''env-1'', requestedNetworks = ''requestednetworks''\<rparr>" "''m#0''"
        "\<lparr>store = (\<lambda>c i. None), others = [], fault = None, trace = []\<rparr>"]
  by (simp add: FindId_One_def interfere_def)

subsection \<open>Meter status: validation\<close>

lemma foldl_append_ops:
  "foldl (\<lambda>ops unit. ops @ f unit) ops units = ops @ concat (map f units)"
  by (induction units arbitrary: ops) auto

lemma allUnitsOps_all_ok:
  "allUnitsOps st codeRaw info (map Inr unitss) ops
     = Inr (ops @ concat (map (\<lambda>unit. setMeterStatusOp unit st (globalKey unit) codeRaw info)
                           (concat unitss)))"
  by (induction unitss arbitrary: ops) (auto simp: foldl_append_ops)

lemma runTransaction_trace:
  "trace (snd (runTransaction ops W)) = trace W @ [EvRunTransaction ops]"
  by (simp add: runTransaction_def Let_def)

text \<open>
  C10. For every code other than \<open>GREEN\<close>, \<open>AMBER\<close> and \<open>RED\<close>, among them \<open>NOT SET\<close>
  and \<open>NOT AVAILABLE\<close>, \<open>SetMeterStatus\<close> returns the "invalid meter status" error and
  leaves the unit and the world (store, trace of store interactions) as they were.
  \<open>SetMeterStatusOnAllUnits\<close> checks nothing: for any code, once the services and their
  units are listed, it submits one transaction holding \<open>setMeterStatusOp\<close> with the raw
  code for every unit, and returns what the transaction returns.
\<close>

theorem SetMeterStatus_validation:
  "(codeRaw \<noteq> ''GREEN'' \<and> codeRaw \<noteq> ''AMBER'' \<and> codeRaw \<noteq> ''RED'' \<longrightarrow>
      SetMeterStatus maxAttempts st u codeRaw info W
        = (Some (Errorf ''invalid meter status %q'' [codeRaw]), u, W))
   \<and> SetMeterStatus maxAttempts st u MeterNotSet info W
        = (Some (Errorf ''invalid meter status %q'' [''NOT SET'']), u, W)
   \<and> SetMeterStatus maxAttempts st u MeterNotAvailable info W
        = (Some (Errorf ''invalid meter status %q'' [''NOT AVAILABLE'']), u, W)
   \<and> SetMeterStatusOnAllUnits st (Inr (map Inr unitss)) codeRaw info W
        = (annotatef
             (fst (runTransaction
                (concat (map (\<lambda>unit. setMeterStatusOp unit st (globalKey unit) codeRaw info)
                          (concat unitss))) W))
             ''cannot set meter state for all units'' [],
           snd (runTransaction
                (concat (map (\<lambda>unit. setMeterStatusOp unit st (globalKey unit) codeRaw info)
                          (concat unitss))) W))
   \<and> trace (snd (SetMeterStatusOnAllUnits st (Inr (map Inr unitss)) codeRaw info W))
        = trace W @ [EvRunTransaction
                (concat (map (\<lambda>unit. setMeterStatusOp unit st (globalKey unit) codeRaw info)
                          (concat unitss)))]"
proof -
  have a: "codeRaw \<noteq> ''GREEN'' \<and> codeRaw \<noteq> ''AMBER'' \<and> codeRaw \<noteq> ''RED'' \<longrightarrow>
      SetMeterStatus maxAttempts st u codeRaw info W
        = (Some (Errorf ''invalid meter status %q'' [codeRaw]), u, W)"
    by (simp add: SetMeterStatus_def MeterGreen_def MeterAmber_def MeterRed_def)
  have b: "SetMeterStatus maxAttempts st u MeterNotSet info W
        = (Some (Errorf ''invalid meter status %q'' [''NOT SET'']), u, W)"
    by (simp add: SetMeterStatus_def MeterGreen_def MeterAmber_def MeterRed_def MeterNotSet_def)
  have c: "SetMeterStatus maxAttempts st u MeterNotAvailable info W
        = (Some (Errorf ''invalid meter status %q'' [''NOT AVAILABLE'']), u, W)"
    by (simp add: SetMeterStatus_def MeterGreen_def MeterAmber_def MeterRed_def
          MeterNotAvailable_def)
  have d: "SetMeterStatusOnAllUnits st (Inr (map Inr unitss)) codeRaw info W
        = (annotatef
             (fst (runTransaction
                (concat (map (\<lambda>unit. setMeterStatusOp unit st (globalKey unit) codeRaw info)
                          (concat unitss))) W))
             ''cannot set meter state for all units'' [],
           snd (runTransaction
                (concat (map (\<lambda>unit. setMeterStatusOp unit st (globalKey unit) codeRaw info)
                          (concat unitss))) W))"
    by (simp add: SetMeterStatusOnAllUnits_def allUnitsOps_all_ok split: prod.splits)
  show ?thesis
    using a b c d by (simp add: runTransaction_trace)
qed

theorem SetMeterStatus_validation_witness:
  "SetMeterStatus 3 example_State example_Unit ''BOGUS'' ''x''
      (example_world (example_store (Some (example_unit_doc 0))
                                    (Some (example_meter_doc ''NOT SET'' ''''))) [])
     = (Some (Errorf ''invalid meter status %q'' [''BOGUS'']), example_Unit,
        example_world (example_store (Some (example_unit_doc 0))
                                     (Some (example_meter_doc ''NOT SET'' ''''))) [])
   \<and> fst (SetMeterStatusOnAllUnits example_State (Inr (map Inr [[example_Unit]])) ''BOGUS'' ''x''
      (example_world (example_store (Some (example_unit_doc 0))
                                    (Some (example_meter_doc ''NOT SET'' ''''))) [])) = None
   \<and> store (snd (SetMeterStatusOnAllUnits example_State (Inr (map Inr [[example_Unit]])) ''BOGUS'' ''x''
      (example_world (example_store (Some (example_unit_doc 0))
                                    (Some (example_meter_doc ''NOT SET'' ''''))) [])))
        ''meterStatus'' ''env-1:u#wordpress/0''
      = Some (example_meter_doc ''BOGUS'' ''x'')"
  using SetMeterStatus_validation
    [of "''BOGUS''" 3 example_State example_Unit "''x''"
        "example_world (example_store (Some (example_unit_doc 0))
                                      (Some (example_meter_doc ''NOT SET'' ''''))) []"
        "[[example_Unit]]"]
  by (simp add: runTransaction_def txn_apply_def op_asserts_def op_mutate_def put_doc_def
        setMeterStatusOp_def interfere_def annotatef_def docID_def unitsC_def meterStatusC_def
        isAliveDoc_def Alive_def example_State_def example_Unit_def example_world_def
        example_store_def example_unit_doc_def example_meter_doc_def Let_def)

subsection \<open>Meter status: the operations guard the unit\<close>

lemma setMeterStatusOp_asserts:
  "list_all (op_asserts s) (setMeterStatusOp u st gk code info)
     = (assert_holds (AssertQuery isAliveDoc) (s unitsC (unit_DocID (doc u)))
        \<and> s meterStatusC (docID st gk) \<noteq> None)"
  by (simp add: setMeterStatusOp_def op_asserts_def)

lemma isAlive_holds:
  "assert_holds (AssertQuery isAliveDoc) x
     = (\<exists>d. x = Some d \<and> map_of d ''life'' = Some (BInt Alive))"
  by (cases x) (simp_all add: isAliveDoc_def)

lemma setMeterStatusOp_commit:
  assumes "s unitsC (unit_DocID (doc u)) = Some d" and "s meterStatusC (docID st gk) = Some m"
  shows "foldl op_mutate s (setMeterStatusOp u st gk code info)
           = put_doc s meterStatusC (docID st gk)
               (Some (set_field ''info'' (BString info) (set_field ''code'' (BString code) m)))"
  using assms by (simp add: setMeterStatusOp_def op_mutate_def)

text \<open>
  C2. The operation list of \<open>setMeterStatusOp\<close> is: an operation on the unit's document
  that only asserts that the unit is alive, and an operation on the meter-status document
  that asserts that it exists and sets code and info. Committed against a store in which
  the unit's document is gone (for instance after a transaction \<open>del\<close> that removed it) or no
  longer alive, or in which the meter-status document is missing, the transaction is
  aborted with the conflict error and writes nothing; otherwise it sets the two fields of
  the meter-status document. \<open>SetMeterStatus\<close> on a unit whose document is gone, while a
  meter-status document with another value is still there, ends with a not-found error
  and an unchanged store.
\<close>

theorem setMeterStatusOp_guards:
  "(\<exists>a b. setMeterStatusOp u st gk code info = [a, b]
       \<and> C a = unitsC \<and> Id' a = unit_DocID (doc u) \<and> Assert a = AssertQuery isAliveDoc
       \<and> Insert a = None \<and> Update a = None \<and> \<not> Remove a
       \<and> C b = meterStatusC \<and> Id' b = docID st gk \<and> Assert b = DocExists
       \<and> Insert b = None \<and> \<not> Remove b
       \<and> Update b = Some [(''$set'', BDoc [(''code'', BString code), (''info'', BString info)])])
   \<and> (s unitsC (unit_DocID (doc u)) = None \<longrightarrow>
        txn_apply (setMeterStatusOp u st gk code info) s = (Some ErrAborted, s))
   \<and> (s unitsC (unit_DocID (doc u)) = Some d \<longrightarrow> map_of d ''life'' \<noteq> Some (BInt Alive) \<longrightarrow>
        txn_apply (setMeterStatusOp u st gk code info) s = (Some ErrAborted, s))
   \<and> (s meterStatusC (docID st gk) = None \<longrightarrow>
        txn_apply (setMeterStatusOp u st gk code info) s = (Some ErrAborted, s))
   \<and> (s unitsC (unit_DocID (doc u)) = Some d \<longrightarrow> map_of d ''life'' = Some (BInt Alive) \<longrightarrow>
       s meterStatusC (docID st gk) = Some m \<longrightarrow>
        txn_apply (setMeterStatusOp u st gk code info) s
          = (None, put_doc s meterStatusC (docID st gk)
               (Some (set_field ''info'' (BString info) (set_field ''code'' (BString code) m)))))
   \<and> (txn_apply del s0 = (None, s) \<longrightarrow> s unitsC (unit_DocID (doc u)) = None \<longrightarrow>
        txn_apply (setMeterStatusOp u st gk code info) s = (Some ErrAborted, s))
   \<and> (store (interfere W) unitsC (unit_DocID (doc u)) = None \<longrightarrow>
        fst (runTransaction (setMeterStatusOp u st gk code info) W) = Some ErrAborted
      \<and> store (snd (runTransaction (setMeterStatusOp u st gk code info) W)) = store (interfere W))
   \<and> (others W = [] \<longrightarrow> fault W = None \<longrightarrow> store W unitsC (unit_DocID (doc u)) = None \<longrightarrow>
       store W meterStatusC (docID st (globalKey u)) = Some m \<longrightarrow>
       code = MeterGreen \<or> code = MeterAmber \<or> code = MeterRed \<longrightarrow>
       \<not> (Code (decode_meterStatusDoc m) = code \<and> Info (decode_meterStatusDoc m) = info) \<longrightarrow>
        fst (SetMeterStatus (Suc (Suc k)) st u code info W)
          = Some (Annotatef (Trace (NotFoundf ''unit %q'' [Name u]))
                    ''cannot set meter state for unit %s'' [Name u])
      \<and> store (snd (snd (SetMeterStatus (Suc (Suc k)) st u code info W))) = store W)"
proof -
  let ?U = "setMeterStatusOp u st gk code info"
  have shape: "\<exists>a b. ?U = [a, b]
       \<and> C a = unitsC \<and> Id' a = unit_DocID (doc u) \<and> Assert a = AssertQuery isAliveDoc
       \<and> Insert a = None \<and> Update a = None \<and> \<not> Remove a
       \<and> C b = meterStatusC \<and> Id' b = docID st gk \<and> Assert b = DocExists
       \<and> Insert b = None \<and> \<not> Remove b
       \<and> Update b = Some [(''$set'', BDoc [(''code'', BString code), (''info'', BString info)])]"
    by (simp add: setMeterStatusOp_def)
  have gone: "txn_apply ?U s' = (Some ErrAborted, s')"
    if "s' unitsC (unit_DocID (doc u)) = None" for s'
    using that by (simp add: txn_apply_def setMeterStatusOp_asserts isAlive_holds)
  have notalive: "txn_apply ?U s = (Some ErrAborted, s)"
    if "s unitsC (unit_DocID (doc u)) = Some d" "map_of d ''life'' \<noteq> Some (BInt Alive)"
    using that by (simp add: txn_apply_def setMeterStatusOp_asserts isAliveDoc_def)
  have nometer: "txn_apply ?U s = (Some ErrAborted, s)"
    if "s meterStatusC (docID st gk) = None"
    using that by (simp add: txn_apply_def setMeterStatusOp_asserts)
  have commit: "txn_apply ?U s
          = (None, put_doc s meterStatusC (docID st gk)
               (Some (set_field ''info'' (BString info) (set_field ''code'' (BString code) m))))"
    if "s unitsC (unit_DocID (doc u)) = Some d" "map_of d ''life'' = Some (BInt Alive)"
       "s meterStatusC (docID st gk) = Some m"
    using that
    by (simp add: txn_apply_def setMeterStatusOp_asserts isAliveDoc_def setMeterStatusOp_commit)
  have rt: "fst (runTransaction ?U W) = Some ErrAborted
      \<and> store (snd (runTransaction ?U W)) = store (interfere W)"
    if "store (interfere W) unitsC (unit_DocID (doc u)) = None"
    using that gone [of "store (interfere W)"] by (simp add: runTransaction_def Let_def)
  have e2e: "fst (SetMeterStatus (Suc (Suc k)) st u code info W)
          = Some (Annotatef (Trace (NotFoundf ''unit %q'' [Name u]))
                    ''cannot set meter state for unit %s'' [Name u])
      \<and> store (snd (snd (SetMeterStatus (Suc (Suc k)) st u code info W))) = store W"
    if h: "others W = []" "fault W = None" "store W unitsC (unit_DocID (doc u)) = None"
       "store W meterStatusC (docID st (globalKey u)) = Some m"
       "code = MeterGreen \<or> code = MeterAmber \<or> code = MeterRed"
       "\<not> (Code (decode_meterStatusDoc m) = code \<and> Info (decode_meterStatusDoc m) = info)"
  proof -
    have i: "interfere (W\<lparr>trace := t\<rparr>) = W\<lparr>trace := t\<rparr>" for t
      using h(1) by (simp add: interfere_def)
    have i0: "interfere W = W" using h(1) by (simp add: interfere_def)
    have g: "getMeterStatusDoc st u W
               = (Inr (decode_meterStatusDoc m),
                  W\<lparr>trace := trace W @ [EvFindId meterStatusC (docID st (globalKey u))]\<rparr>)"
      using h(2,4) by (simp add: getMeterStatusDoc_def FindId_One_def i0 Let_def)
    let ?W1 = "W\<lparr>trace := trace W @ [EvFindId meterStatusC (docID st (globalKey u))]\<rparr>"
    let ?ops = "setMeterStatusOp u st (globalKey u) code info"
    have ab: "txn_apply ?ops (store W) = (Some ErrAborted, store W)"
      using h(3) by (simp add: txn_apply_def setMeterStatusOp_asserts isAlive_holds)
    have r1: "runTransaction ?ops ?W1
               = (Some ErrAborted, ?W1\<lparr>trace := trace ?W1 @ [EvRunTransaction ?ops]\<rparr>)"
      using ab by (simp add: runTransaction_def i Let_def)
    let ?W2 = "?W1\<lparr>trace := trace ?W1 @ [EvRunTransaction ?ops]\<rparr>"
    have rf: "Refresh u ?W2
               = (Some (NotFoundf ''unit %q'' [Name u]), u,
                  ?W2\<lparr>trace := trace ?W2 @ [EvFindId unitsC (unit_DocID (doc u))]\<rparr>)"
      using h(2,3) by (simp add: Refresh_def FindId_One_def i Let_def)
    have b0: "buildTxn st code info 0 u ?W1 = (Inr ?ops, u, ?W1)"
      by (simp add: buildTxn_def)
    have b1: "buildTxn st code info (Suc 0) u ?W2
               = (Inl (Trace (NotFoundf ''unit %q'' [Name u])), u,
                  ?W2\<lparr>trace := trace ?W2 @ [EvFindId unitsC (unit_DocID (doc u))]\<rparr>)"
      using rf by (simp add: buildTxn_def)
    have ne: "?ops \<noteq> []" by (simp add: setMeterStatusOp_def)
    have rn: "run (Suc (Suc k)) (buildTxn st code info) u ?W1
               = (Some (Trace (NotFoundf ''unit %q'' [Name u])), u,
                  ?W2\<lparr>trace := trace ?W2 @ [EvFindId unitsC (unit_DocID (doc u))]\<rparr>)"
      using b0 b1 r1 ne by (simp add: run_def)
    show ?thesis
      using h(5,6) g rn by (auto simp: SetMeterStatus_def annotatef_def Let_def)
  qed
  show ?thesis
    using shape gone notalive nometer commit rt e2e by blast
qed

theorem setMeterStatusOp_guards_witness:
  "fst (txn_apply (setMeterStatusOp example_Unit example_State ''u#wordpress/0'' ''GREEN'' ''ok'')
          (example_store None (Some (example_meter_doc ''AMBER'' '''')))) = Some ErrAborted
   \<and> fst (txn_apply (setMeterStatusOp example_Unit example_State ''u#wordpress/0'' ''GREEN'' ''ok'')
          (example_store (Some (example_unit_doc 1)) (Some (example_meter_doc ''AMBER'' ''''))))
       = Some ErrAborted
   \<and> fst (txn_apply (setMeterStatusOp example_Unit example_State ''u#wordpress/0'' ''GREEN'' ''ok'')
          (example_store (Some (example_unit_doc 0)) None)) = Some ErrAborted
   \<and> fst (txn_apply (setMeterStatusOp example_Unit example_State ''u#wordpress/0'' ''GREEN'' ''ok'')
          (example_store (Some (example_unit_doc 0)) (Some (example_meter_doc ''AMBER'' ''''))))
       = None
   \<and> snd (txn_apply (setMeterStatusOp example_Unit example_State ''u#wordpress/0'' ''GREEN'' ''ok'')
          (example_store (Some (example_unit_doc 0)) (Some (example_meter_doc ''AMBER'' ''''))))
        ''meterStatus'' ''env-1:u#wordpress/0''
       = Some (example_meter_doc ''GREEN'' ''ok'')
   \<and> fst (txn_apply (setMeterStatusOp example_Unit example_State ''u#wordpress/0'' ''GREEN'' ''ok'')
          (snd (txn_apply
                  [\<lparr>C = ''units'', Id' = ''env-1:wordpress/0'', Assert = NoAssert, Insert = None,
                    Update = None, Remove = True\<rparr>]
                  (example_store (Some (example_unit_doc 2))
                                 (Some (example_meter_doc ''AMBER'' '''')))))) = Some ErrAborted
   \<and> fst (runTransaction
            (setMeterStatusOp example_Unit example_State ''u#wordpress/0'' ''GREEN'' ''ok'')
            (example_world (example_store (Some (example_unit_doc 0))
                                          (Some (example_meter_doc ''AMBER'' '''')))
               [\<lambda>s. put_doc s ''units'' ''env-1:wordpress/0'' None])) = Some ErrAborted
   \<and> fst (SetMeterStatus 3 example_State example_Unit ''GREEN'' ''ok''
            (example_world (example_store None (Some (example_meter_doc ''AMBER'' ''''))) []))
       = Some (Annotatef (Trace (NotFoundf ''unit %q'' [''wordpress/0'']))
                 ''cannot set meter state for unit %s'' [''wordpress/0''])"
proof -
  let ?U = "setMeterStatusOp example_Unit example_State ''u#wordpress/0'' ''GREEN'' ''ok''"
  let ?del = "[\<lparr>C = ''units'', Id' = ''env-1:wordpress/0'', Assert = NoAssert, Insert = None,
                Update = None, Remove = True\<rparr>]"
  let ?s0 = "example_store (Some (example_unit_doc 2)) (Some (example_meter_doc ''AMBER'' ''''))"
  note ex = example_State_def example_Unit_def example_world_def example_store_def
    example_unit_doc_def example_meter_doc_def docID_def unitsC_def meterStatusC_def Alive_def
    MeterGreen_def MeterAmber_def MeterRed_def decode_meterStatusDoc_def Name_def
  have del: "txn_apply ?del ?s0 = (None, snd (txn_apply ?del ?s0))"
    by (simp add: txn_apply_def op_asserts_def)
  have delgone: "snd (txn_apply ?del ?s0) unitsC (unit_DocID (doc example_Unit)) = None"
    by (simp add: txn_apply_def op_asserts_def op_mutate_def put_doc_def ex)
  have a: "fst (txn_apply ?U (example_store None (Some (example_meter_doc ''AMBER'' ''''))))
             = Some ErrAborted"
    using setMeterStatusOp_guards
      [where u = example_Unit and st = example_State and gk = "''u#wordpress/0''"
         and code = "''GREEN''" and info = "''ok''"
         and s = "example_store None (Some (example_meter_doc ''AMBER'' ''''))"]
    by (simp add: ex)
  have b: "fst (txn_apply ?U (example_store (Some (example_unit_doc 1))
                                (Some (example_meter_doc ''AMBER'' '''')))) = Some ErrAborted"
    using setMeterStatusOp_guards
      [where u = example_Unit and st = example_State and gk = "''u#wordpress/0''"
         and code = "''GREEN''" and info = "''ok''" and d = "example_unit_doc 1"
         and s = "example_store (Some (example_unit_doc 1))
                    (Some (example_meter_doc ''AMBER'' ''''))"]
    by (simp add: ex)
  have c: "fst (txn_apply ?U (example_store (Some (example_unit_doc 0)) None)) = Some ErrAborted"
    using setMeterStatusOp_guards
      [where u = example_Unit and st = example_State and gk = "''u#wordpress/0''"
         and code = "''GREEN''" and info = "''ok''"
         and s = "example_store (Some (example_unit_doc 0)) None"]
    by (simp add: ex)
  have d: "txn_apply ?U (example_store (Some (example_unit_doc 0))
                            (Some (example_meter_doc ''AMBER'' '''')))
             = (None, put_doc (example_store (Some (example_unit_doc 0))
                            (Some (example_meter_doc ''AMBER'' ''''))) meterStatusC
                  (docID example_State ''u#wordpress/0'')
                  (Some (set_field ''info'' (BString ''ok'')
                          (set_field ''code'' (BString ''GREEN'')
                             (example_meter_doc ''AMBER'' '''')))))"
    using setMeterStatusOp_guards
      [where u = example_Unit and st = example_State and gk = "''u#wordpress/0''"
         and code = "''GREEN''" and info = "''ok''" and d = "example_unit_doc 0"
         and m = "example_meter_doc ''AMBER'' ''''"
         and s = "example_store (Some (example_unit_doc 0))
                    (Some (example_meter_doc ''AMBER'' ''''))"]
    by (simp add: ex)
  have e: "fst (txn_apply ?U (snd (txn_apply ?del ?s0))) = Some ErrAborted"
    using setMeterStatusOp_guards
      [where u = example_Unit and st = example_State and gk = "''u#wordpress/0''"
         and code = "''GREEN''" and info = "''ok''" and del = ?del and ?s0.0 = ?s0
         and s = "snd (txn_apply ?del ?s0)"] del delgone
    by simp
  have f: "fst (runTransaction ?U
            (example_world (example_store (Some (example_unit_doc 0))
                                          (Some (example_meter_doc ''AMBER'' '''')))
               [\<lambda>s. put_doc s ''units'' ''env-1:wordpress/0'' None])) = Some ErrAborted"
    using setMeterStatusOp_guards
      [where u = example_Unit and st = example_State and gk = "''u#wordpress/0''"
         and code = "''GREEN''" and info = "''ok''"
         and W = "example_world (example_store (Some (example_unit_doc 0))
                                          (Some (example_meter_doc ''AMBER'' '''')))
               [\<lambda>s. put_doc s ''units'' ''env-1:wordpress/0'' None]"]
    by (simp add: ex interfere_def put_doc_def)
  have g: "fst (SetMeterStatus 3 example_State example_Unit ''GREEN'' ''ok''
            (example_world (example_store None (Some (example_meter_doc ''AMBER'' ''''))) []))
       = Some (Annotatef (Trace (NotFoundf ''unit %q'' [''wordpress/0'']))
                 ''cannot set meter state for unit %s'' [''wordpress/0''])"
    using setMeterStatusOp_guards
      [where u = example_Unit and st = example_State
         and code = "''GREEN''" and info = "''ok''" and k = 1
         and m = "example_meter_doc ''AMBER'' ''''"
         and W = "example_world (example_store None (Some (example_meter_doc ''AMBER'' ''''))) []"]
    by (simp add: ex numeral_3_eq_3)
  from d have d1: "fst (txn_apply ?U (example_store (Some (example_unit_doc 0))
                            (Some (example_meter_doc ''AMBER'' '''')))) = None"
    and d2: "snd (txn_apply ?U (example_store (Some (example_unit_doc 0))
                            (Some (example_meter_doc ''AMBER'' ''''))))
               ''meterStatus'' ''env-1:u#wordpress/0'' = Some (example_meter_doc ''GREEN'' ''ok'')"
    by (simp_all add: put_doc_def ex)
  show ?thesis using a b c d1 d2 e f g by simp
qed

subsection \<open>Meter status: setting the status that is already there\<close>

text \<open>
  C3, as stated, fails: "for every unit whose stored code and info equal the requested
  ones" includes a unit that still has the initial status \<open>NOT SET\<close>. Requesting
  \<open>NOT SET\<close> for it is refused by the validation, although the stored status equals the
  requested one.
\<close>

theorem SetMeterStatus_idempotent_counterexample:
  "fst (getMeterStatusDoc example_State example_Unit
          (example_world (example_store (Some (example_unit_doc 0))
                                        (Some (example_meter_doc ''NOT SET'' ''''))) []))
     = Inr \<lparr>DocID = ''env-1:u#wordpress/0'', EnvUUID = ''env-1'', Code = ''NOT SET'', Info = ''''\<rparr>
   \<and> fst (SetMeterStatus 3 example_State example_Unit ''NOT SET'' ''''
          (example_world (example_store (Some (example_unit_doc 0))
                                        (Some (example_meter_doc ''NOT SET'' ''''))) []))
     \<noteq> None"
  by (simp add: SetMeterStatus_def getMeterStatusDoc_def FindId_One_def interfere_def
        decode_meterStatusDoc_def docID_def meterStatusC_def MeterGreen_def MeterAmber_def
        MeterRed_def example_State_def example_Unit_def example_world_def example_store_def
        example_meter_doc_def Let_def)

lemma getMeterStatusDoc_trace:
  "trace (snd (getMeterStatusDoc st u W))
     = trace W @ [EvFindId meterStatusC (docID st (globalKey u))]"
  by (simp add: getMeterStatusDoc_def FindId_One_def Let_def
           split: option.splits prod.splits sum.splits)

lemma Refresh_trace:
  "trace (snd (snd (Refresh u W))) = trace W @ [EvFindId unitsC (unit_DocID (doc u))]"
  by (simp add: Refresh_def FindId_One_def Let_def split: option.splits prod.splits sum.splits)

text \<open>
  C3, amended. For a valid requested code (\<open>GREEN\<close>, \<open>AMBER\<close> or \<open>RED\<close>):
  (1) if the first read of the meter-status document gives the requested code and info,
  \<open>SetMeterStatus\<close> returns success after that one read, with no transaction submitted;
  (2) on a retry (\<open>attempt > 0\<close>), if the unit can be refreshed and the re-read document
  gives the requested code and info, \<open>buildTxn\<close> returns the \<open>ErrNoOperations\<close> sentinel
  and the engine returns success without submitting anything in that attempt;
  (3) end to end: if the first read differs, the first transaction is aborted, and the
  re-read of attempt 1 gives the requested values, \<open>SetMeterStatus\<close> returns success and
  its store interactions were: read, the aborted transaction, refresh, read.
\<close>

theorem SetMeterStatus_idempotent:
  fixes st :: State and u u' :: Unit and W W' :: world and code info :: string
  defines "W1 \<equiv> snd (getMeterStatusDoc st u W)"
    and "ops \<equiv> setMeterStatusOp u st (globalKey u) code info"
  defines "W2 \<equiv> snd (runTransaction ops W1)"
  defines "u3 \<equiv> fst (snd (Refresh u W2))" and "W3 \<equiv> snd (snd (Refresh u W2))"
  defines "W4 \<equiv> snd (getMeterStatusDoc st u3 W3)"
  defines "r1 \<equiv> fst (snd (Refresh u' W'))" and "R1 \<equiv> snd (snd (Refresh u' W'))"
  defines "R2 \<equiv> snd (getMeterStatusDoc st r1 R1)"
  assumes valid: "code = MeterGreen \<or> code = MeterAmber \<or> code = MeterRed"
  shows "(fst (getMeterStatusDoc st u W) = Inr d \<longrightarrow> Code d = code \<longrightarrow> Info d = info \<longrightarrow>
            SetMeterStatus n st u code info W = (None, u, W1)
          \<and> trace W1 = trace W @ [EvFindId meterStatusC (docID st (globalKey u))])
       \<and> (0 < attempt \<longrightarrow> fst (Refresh u' W') = None \<longrightarrow>
          fst (getMeterStatusDoc st r1 R1) = Inr d' \<longrightarrow> Code d' = code \<longrightarrow> Info d' = info \<longrightarrow>
            buildTxn st code info attempt u' W' = (Inl ErrNoOperations, r1, R2)
          \<and> run_from (Suc k) attempt (buildTxn st code info) u' W' = (None, r1, R2)
          \<and> trace R2 = trace W' @ [EvFindId unitsC (unit_DocID (doc u')),
                                    EvFindId meterStatusC (docID st (globalKey r1))])
       \<and> (fst (getMeterStatusDoc st u W) = Inr d0 \<longrightarrow> \<not> (Code d0 = code \<and> Info d0 = info) \<longrightarrow>
          fst (runTransaction ops W1) = Some ErrAborted \<longrightarrow>
          fst (Refresh u W2) = None \<longrightarrow>
          fst (getMeterStatusDoc st u3 W3) = Inr d1 \<longrightarrow> Code d1 = code \<longrightarrow> Info d1 = info \<longrightarrow>
            SetMeterStatus (Suc (Suc k)) st u code info W = (None, u3, W4)
          \<and> trace W4 = trace W @ [EvFindId meterStatusC (docID st (globalKey u)),
                                   EvRunTransaction ops,
                                   EvFindId unitsC (unit_DocID (doc u)),
                                   EvFindId meterStatusC (docID st (globalKey u3))])"
proof -
  have p1: "SetMeterStatus n st u code info W = (None, u, W1)
          \<and> trace W1 = trace W @ [EvFindId meterStatusC (docID st (globalKey u))]"
    if "fst (getMeterStatusDoc st u W) = Inr d" "Code d = code" "Info d = info"
  proof -
    define X where "X = snd (getMeterStatusDoc st u W)"
    have g: "getMeterStatusDoc st u W = (Inr d, X)"
      using that(1) by (simp add: X_def prod_eq_iff)
    have x: "W1 = X" by (simp add: X_def W1_def)
    from g that(2,3) valid have "SetMeterStatus n st u code info W = (None, u, X)"
      by (auto simp: SetMeterStatus_def Let_def)
    moreover have "trace X = trace W @ [EvFindId meterStatusC (docID st (globalKey u))]"
      using getMeterStatusDoc_trace [of st u W] g by simp
    ultimately show ?thesis by (simp add: x)
  qed
  have bt: "buildTxn st code info a v V
              = (Inl ErrNoOperations, fst (snd (Refresh v V)),
                 snd (getMeterStatusDoc st (fst (snd (Refresh v V))) (snd (snd (Refresh v V)))))"
    if "0 < a" "fst (Refresh v V) = None"
       "fst (getMeterStatusDoc st (fst (snd (Refresh v V))) (snd (snd (Refresh v V)))) = Inr e"
       "Code e = code" "Info e = info" for a v V e
  proof -
    define x where "x = fst (snd (Refresh v V))"
    define y where "y = snd (snd (Refresh v V))"
    define z where "z = snd (getMeterStatusDoc st x y)"
    have rf: "Refresh v V = (None, x, y)"
      using that(2) by (simp add: x_def y_def prod_eq_iff)
    have gm: "getMeterStatusDoc st x y = (Inr e, z)"
      using that(3) by (simp add: x_def y_def z_def prod_eq_iff)
    have "buildTxn st code info a v V = (Inl ErrNoOperations, x, z)"
      using rf gm that(1,4,5) by (simp add: buildTxn_def)
    then show ?thesis by (simp add: x_def y_def z_def)
  qed
  have p2: "buildTxn st code info attempt u' W' = (Inl ErrNoOperations, r1, R2)
          \<and> run_from (Suc k) attempt (buildTxn st code info) u' W' = (None, r1, R2)
          \<and> trace R2 = trace W' @ [EvFindId unitsC (unit_DocID (doc u')),
                                    EvFindId meterStatusC (docID st (globalKey r1))]"
    if "0 < attempt" "fst (Refresh u' W') = None"
       "fst (getMeterStatusDoc st r1 R1) = Inr d'" "Code d' = code" "Info d' = info"
  proof -
    have b: "buildTxn st code info attempt u' W' = (Inl ErrNoOperations, r1, R2)"
      using bt [of attempt u' W' d'] that by (simp add: r1_def R1_def R2_def)
    have t: "trace R2 = trace W' @ [EvFindId unitsC (unit_DocID (doc u')),
                                    EvFindId meterStatusC (docID st (globalKey r1))]"
      by (simp add: R2_def R1_def getMeterStatusDoc_trace Refresh_trace)
    from b t show ?thesis by simp
  qed
  have p3: "SetMeterStatus (Suc (Suc k)) st u code info W = (None, u3, W4)
          \<and> trace W4 = trace W @ [EvFindId meterStatusC (docID st (globalKey u)),
                                   EvRunTransaction ops,
                                   EvFindId unitsC (unit_DocID (doc u)),
                                   EvFindId meterStatusC (docID st (globalKey u3))]"
    if h: "fst (getMeterStatusDoc st u W) = Inr d0" "\<not> (Code d0 = code \<and> Info d0 = info)"
       "fst (runTransaction ops W1) = Some ErrAborted" "fst (Refresh u W2) = None"
       "fst (getMeterStatusDoc st u3 W3) = Inr d1" "Code d1 = code" "Info d1 = info"
  proof -
    define X where "X = snd (getMeterStatusDoc st u W)"
    have g: "getMeterStatusDoc st u W = (Inr d0, X)"
      using h(1) by (simp add: X_def prod_eq_iff)
    have x: "W1 = X" by (simp add: X_def W1_def)
    have b0: "buildTxn st code info 0 u W1 = (Inr ops, u, W1)"
      by (simp add: buildTxn_def ops_def)
    have ne: "ops \<noteq> []" by (simp add: ops_def setMeterStatusOp_def)
    define Y where "Y = snd (runTransaction ops W1)"
    have r: "runTransaction ops W1 = (Some ErrAborted, Y)"
      using h(3) by (simp add: Y_def prod_eq_iff)
    have y: "W2 = Y" by (simp add: Y_def W2_def)
    have b1: "buildTxn st code info (Suc 0) u W2 = (Inl ErrNoOperations, u3, W4)"
      using bt [of "Suc 0" u W2 d1] h(4-7) by (simp add: u3_def W3_def W4_def)
    have rn: "run (Suc (Suc k)) (buildTxn st code info) u X = (None, u3, W4)"
      using b0 ne r b1 by (simp add: run_def x y)
    have t: "trace W4 = trace W @ [EvFindId meterStatusC (docID st (globalKey u)),
                                   EvRunTransaction ops,
                                   EvFindId unitsC (unit_DocID (doc u)),
                                   EvFindId meterStatusC (docID st (globalKey u3))]"
      by (simp add: W4_def W3_def W2_def W1_def getMeterStatusDoc_trace Refresh_trace
            runTransaction_trace)
    from g h(2) valid rn t show ?thesis
      by (auto simp: SetMeterStatus_def Let_def annotatef_def)
  qed
  show ?thesis using p1 p2 p3 by blast
qed

theorem SetMeterStatus_idempotent_witness:
  "SetMeterStatus 3 example_State example_Unit ''GREEN'' ''ok''
      (example_world (example_store (Some (example_unit_doc 0))
                                    (Some (example_meter_doc ''GREEN'' ''ok''))) [])
     = (None, example_Unit,
        (example_world (example_store (Some (example_unit_doc 0))
                                      (Some (example_meter_doc ''GREEN'' ''ok''))) [])
          \<lparr>trace := [EvFindId ''meterStatus'' ''env-1:u#wordpress/0'']\<rparr>)
   \<and> fst (buildTxn example_State ''GREEN'' ''ok'' 1 example_Unit
            (example_world (example_store (Some (example_unit_doc 1))
                                          (Some (example_meter_doc ''GREEN'' ''ok''))) []))
       = Inl ErrNoOperations
   \<and> fst (run_from 2 1 (buildTxn example_State ''GREEN'' ''ok'') example_Unit
            (example_world (example_store (Some (example_unit_doc 1))
                                          (Some (example_meter_doc ''GREEN'' ''ok''))) []))
       = None
   \<and> fst (SetMeterStatus 3 example_State example_Unit ''GREEN'' ''ok''
            (example_world (example_store (Some (example_unit_doc 0))
                                          (Some (example_meter_doc ''AMBER'' '''')))
               [\<lambda>s. s,
                \<lambda>s. example_store (Some (example_unit_doc 1))
                                   (Some (example_meter_doc ''GREEN'' ''ok''))]))
       = None
   \<and> trace (snd (snd (SetMeterStatus 3 example_State example_Unit ''GREEN'' ''ok''
            (example_world (example_store (Some (example_unit_doc 0))
                                          (Some (example_meter_doc ''AMBER'' '''')))
               [\<lambda>s. s,
                \<lambda>s. example_store (Some (example_unit_doc 1))
                                   (Some (example_meter_doc ''GREEN'' ''ok''))]))))
       = [EvFindId ''meterStatus'' ''env-1:u#wordpress/0'',
          EvRunTransaction
            (setMeterStatusOp example_Unit example_State ''u#wordpress/0'' ''GREEN'' ''ok''),
          EvFindId ''units'' ''env-1:wordpress/0'',
          EvFindId ''meterStatus'' ''env-1:u#wordpress/0'']"
proof -
  note ex = example_State_def example_Unit_def example_world_def example_store_def
    example_unit_doc_def example_meter_doc_def docID_def unitsC_def meterStatusC_def Alive_def
    MeterGreen_def MeterAmber_def MeterRed_def decode_meterStatusDoc_def decode_unitDoc_def
    Name_def getMeterStatusDoc_def Refresh_def FindId_One_def interfere_def Let_def
  let ?Wg = "example_world (example_store (Some (example_unit_doc 0))
                                    (Some (example_meter_doc ''GREEN'' ''ok''))) []"
  let ?Wd = "example_world (example_store (Some (example_unit_doc 1))
                                          (Some (example_meter_doc ''GREEN'' ''ok''))) []"
  let ?Wr = "example_world (example_store (Some (example_unit_doc 0))
                                          (Some (example_meter_doc ''AMBER'' '''')))
               [\<lambda>s. s,
                \<lambda>s. example_store (Some (example_unit_doc 1))
                                   (Some (example_meter_doc ''GREEN'' ''ok''))]"
  have a: "SetMeterStatus 3 example_State example_Unit ''GREEN'' ''ok'' ?Wg
     = (None, example_Unit, ?Wg\<lparr>trace := [EvFindId ''meterStatus'' ''env-1:u#wordpress/0'']\<rparr>)"
    using SetMeterStatus_idempotent
      [where code = "''GREEN''" and info = "''ok''" and st = example_State and u = example_Unit
         and W = ?Wg and n = 3
         and d = "\<lparr>DocID = ''env-1:u#wordpress/0'', EnvUUID = ''env-1'', Code = ''GREEN'',
                   Info = ''ok''\<rparr>", THEN conjunct1]
    by (simp add: ex)
  have b: "fst (buildTxn example_State ''GREEN'' ''ok'' 1 example_Unit ?Wd) = Inl ErrNoOperations
         \<and> fst (run_from 2 1 (buildTxn example_State ''GREEN'' ''ok'') example_Unit ?Wd) = None"
    using SetMeterStatus_idempotent
      [where code = "''GREEN''" and info = "''ok''" and st = example_State and u' = example_Unit
         and W' = ?Wd and attempt = 1 and k = 1
         and d' = "\<lparr>DocID = ''env-1:u#wordpress/0'', EnvUUID = ''env-1'', Code = ''GREEN'',
                    Info = ''ok''\<rparr>", THEN conjunct2, THEN conjunct1]
    by (simp add: ex numeral_2_eq_2)
  have c: "fst (SetMeterStatus 3 example_State example_Unit ''GREEN'' ''ok'' ?Wr) = None
     \<and> trace (snd (snd (SetMeterStatus 3 example_State example_Unit ''GREEN'' ''ok'' ?Wr)))
       = [EvFindId ''meterStatus'' ''env-1:u#wordpress/0'',
          EvRunTransaction
            (setMeterStatusOp example_Unit example_State ''u#wordpress/0'' ''GREEN'' ''ok''),
          EvFindId ''units'' ''env-1:wordpress/0'',
          EvFindId ''meterStatus'' ''env-1:u#wordpress/0'']"
    using SetMeterStatus_idempotent
      [where code = "''GREEN''" and info = "''ok''" and st = example_State and u = example_Unit
         and W = ?Wr and k = 1
         and ?d0.0 = "\<lparr>DocID = ''env-1:u#wordpress/0'', EnvUUID = ''env-1'', Code = ''AMBER'',
                    Info = ''''\<rparr>"
         and ?d1.0 = "\<lparr>DocID = ''env-1:u#wordpress/0'', EnvUUID = ''env-1'', Code = ''GREEN'',
                    Info = ''ok''\<rparr>", THEN conjunct2, THEN conjunct2]
    by (simp add: ex numeral_3_eq_3 runTransaction_def txn_apply_def op_asserts_def
          setMeterStatusOp_def isAliveDoc_def)
  show ?thesis using a b c by simp
qed

end
